theory Spec2Isabelle
  imports Main
begin

section \<open>The layered configuration loader of atmos\<close>

text \<open>
  A shallow embedding of \<^verbatim>\<open>internal/config/config.go\<close>. The package keeps one
  process-wide record \<open>Config\<close> and fills it in \<open>InitConfig\<close>; here the record is
  passed in and returned, together with the error the Go function returns
  (\<open>None\<close> for \<open>nil\<close>). The lines printed with \<open>fmt.Println\<close> are not modelled.
\<close>

subsection \<open>Data\<close>

text \<open>A Go \<open>error\<close> made with \<open>errors.New\<close>: its message.\<close>

datatype error = Error string

text \<open>The struct \<open>Configuration\<close> (config.go, lines 25-32).\<close>

record Configuration =
  StackNamePattern :: string
  StackDirs :: "string list"
  StackDirsAbsolutePaths :: "string list"
  TerraformDir :: string
  TerraformDirAbsolutePath :: string
  StackConfigFiles :: "string list"

text \<open>
  The key-value store of the configuration library (\<open>viper\<close>), and the content of one
  parsed YAML document, restricted to the three keys of the configuration: the fields
  of \<open>Configuration\<close> that carry a \<open>mapstructure\<close> tag. A key is absent
  (\<open>None\<close>) or carries a value of the field's type. Every other key is left out of
  the model, also a key named like one of the three untagged fields, which the decoder
  would write into that field.
\<close>

record settings =
  keyStackDirs :: "string list option"
  keyTerraformDir :: "string option"
  keyStackNamePattern :: "string option"

text \<open>An open file (\<open>*os.File\<close>): a handle that the parser reads from.\<close>

type_synonym reader = string

text \<open>
  Everything \<open>InitConfig\<close> asks of the operating system and of the libraries it
  imports is a field of the record \<open>world\<close>: the theorems hold for every value of
  these fields.
  \<^item> \<open>GOOS\<close>: \<open>runtime.GOOS\<close>;
  \<^item> \<open>environ\<close>: the process environment (\<open>None\<close>: the variable is not set);
  \<^item> \<open>homedir_Dir\<close>, \<open>os_Getwd\<close>: the home and the working directory, or an error;
  \<^item> \<open>FileExists\<close>: \<open>u.FileExists\<close> of \<open>atmos/internal/utils\<close>;
  \<^item> \<open>os_Open\<close>: opening a file for reading;
  \<^item> \<open>ReadConfig\<close>: the YAML parser behind \<open>viper.MergeConfig\<close>;
  \<^item> \<open>path_Join\<close>: \<open>path.Join\<close>;
  \<^item> \<open>filepath_Abs\<close>: \<open>filepath.Abs\<close>;
  \<^item> \<open>doublestar_Glob\<close>: \<open>doublestar.Glob\<close>, the files that match a pattern;
  \<^item> \<open>json_MarshalIndent\<close>: \<open>json.MarshalIndent\<close> of a string slice with
    prefix \<open>""\<close> and an indent of two spaces.
\<close>

record world =
  GOOS :: string
  environ :: "string \<rightharpoonup> string"
  homedir_Dir :: "error + string"
  os_Getwd :: "error + string"
  FileExists :: "string \<Rightarrow> bool"
  os_Open :: "string \<Rightarrow> error + reader"
  ReadConfig :: "reader \<Rightarrow> error + settings"
  path_Join :: "string list \<Rightarrow> string"
  filepath_Abs :: "string \<Rightarrow> error + string"
  doublestar_Glob :: "string \<Rightarrow> error + string list"
  json_MarshalIndent :: "string list \<Rightarrow> string"

subsection \<open>Constants (config.go, lines 19-45; globals.go, line 4)\<close>

definition configFileName :: string where
  "configFileName = ''atmos.yaml''"

definition systemDirConfigFilePath :: string where
  "systemDirConfigFilePath = ''/usr/local/etc/atmos''"

definition windowsAppDataEnvVar :: string where
  "windowsAppDataEnvVar = ''LOCALAPPDATA''"

definition DefaultStackConfigFileExtension :: string where
  "DefaultStackConfigFileExtension = ''.yaml''"

definition defaultConfig :: settings where
  "defaultConfig =
     \<lparr> keyStackDirs = Some [''./stacks/*''],
       keyTerraformDir = Some ''./components/terraform'',
       keyStackNamePattern = Some ''environment-stage'' \<rparr>"

subsection \<open>Library operations\<close>

text \<open>\<open>os.Getenv\<close>: the value of the variable, the empty string when it is not set.\<close>

definition os_Getenv :: "world \<Rightarrow> string \<Rightarrow> string" where
  "os_Getenv w key = (case environ w key of None \<Rightarrow> [] | Some val \<Rightarrow> val)"

text \<open>
  \<open>strings.Split(s, sep)\<close> for a separator of one byte (the one call passes \<open>","\<close>):
  the pieces of \<open>s\<close> between the separators, one more than there are separators.
\<close>

primrec strings_Split :: "string \<Rightarrow> char \<Rightarrow> string list" where
  "strings_Split [] sep = [[]]"
| "strings_Split (c # s) sep =
     (if c = sep then [] # strings_Split s sep
      else (case strings_Split s sep of
              [] \<Rightarrow> [[c]]
            | a # as \<Rightarrow> (c # a) # as))"

text \<open>\<open>os.IsPathSeparator\<close>: \<open>/\<close>, and on Windows also the backslash.\<close>

definition IsPathSeparator :: "string \<Rightarrow> char \<Rightarrow> bool" where
  "IsPathSeparator os c =
     (c = CHR ''/'' \<or> (os = ''windows'' \<and> c = CHR 0x5C))"

text \<open>
  \<open>filepath.Ext\<close>: scanning from the end of the path up to the last separator, the
  suffix that starts at the first dot met; empty when there is none. The first
  argument of \<open>Ext_scan\<close> is the part not yet scanned, reversed; the second the part
  already scanned.
\<close>

fun Ext_scan :: "string \<Rightarrow> string \<Rightarrow> string \<Rightarrow> string" where
  "Ext_scan os [] suffix = []"
| "Ext_scan os (c # rest) suffix =
     (if IsPathSeparator os c then []
      else if c = CHR ''.'' then c # suffix
      else Ext_scan os rest (c # suffix))"

definition filepath_Ext :: "world \<Rightarrow> string \<Rightarrow> string" where
  "filepath_Ext w path = Ext_scan (GOOS w) (rev path) []"

text \<open>
  Merging a map into the store (\<open>viper\<close>'s \<open>mergeMaps\<close>): a key of the source
  replaces the key of the target, the other keys of the target stay.
\<close>

definition mergeMaps :: "settings \<Rightarrow> settings \<Rightarrow> settings" where
  "mergeMaps src tgt =
     \<lparr> keyStackDirs =
         (case keyStackDirs src of Some x \<Rightarrow> Some x | None \<Rightarrow> keyStackDirs tgt),
       keyTerraformDir =
         (case keyTerraformDir src of Some x \<Rightarrow> Some x | None \<Rightarrow> keyTerraformDir tgt),
       keyStackNamePattern =
         (case keyStackNamePattern src of Some x \<Rightarrow> Some x
          | None \<Rightarrow> keyStackNamePattern tgt) \<rparr>"

text \<open>A new store, \<open>viper.New()\<close>: no key is set.\<close>

definition viper_New :: settings where
  "viper_New =
     \<lparr> keyStackDirs = None, keyTerraformDir = None, keyStackNamePattern = None \<rparr>"

definition MergeConfigMap :: "settings \<Rightarrow> settings \<Rightarrow> error + settings" where
  "MergeConfigMap v cfg = Inr (mergeMaps cfg v)"

definition MergeConfig :: "world \<Rightarrow> reader \<Rightarrow> settings \<Rightarrow> error + settings" where
  "MergeConfig w reader v =
     (case ReadConfig w reader of
        Inl err \<Rightarrow> Inl err
      | Inr cfg \<Rightarrow> Inr (mergeMaps cfg v))"

text \<open>
  \<open>v.Unmarshal(&Config)\<close>, for a store of the three keys: every key of the store is
  decoded into its field; a field whose key is absent keeps its value. A string
  replaces the old string. A list is
  written, element by element, into the slice that the field holds, which is extended
  when it is too short: entries of a longer old slice stay behind the decoded ones.
  \<open>Config\<close> is zero when the process starts, and then the field is the decoded list.
\<close>

definition Unmarshal :: "settings \<Rightarrow> Configuration \<Rightarrow> error + Configuration" where
  "Unmarshal v Config =
     Inr (Config
       \<lparr> StackNamePattern :=
           (case keyStackNamePattern v of Some x \<Rightarrow> x | None \<Rightarrow> StackNamePattern Config),
         StackDirs :=
           (case keyStackDirs v of
              Some xs \<Rightarrow> xs @ drop (length xs) (StackDirs Config)
            | None \<Rightarrow> StackDirs Config),
         TerraformDir :=
           (case keyTerraformDir v of Some x \<Rightarrow> x | None \<Rightarrow> TerraformDir Config) \<rparr>)"

text \<open>
  Modelled from the spec: \<open>u.ConvertPathsToAbsolutePaths\<close> (the package
  \<open>atmos/internal/utils\<close> is not among the sources). The Path Normalizer computes the
  absolute form of each entry, in order; any path-resolution error aborts.
\<close>

fun ConvertPathsToAbsolutePaths :: "world \<Rightarrow> string list \<Rightarrow> error + string list" where
  "ConvertPathsToAbsolutePaths w [] = Inr []"
| "ConvertPathsToAbsolutePaths w (dir # paths) =
     (case filepath_Abs w dir of
        Inl err \<Rightarrow> Inl err
      | Inr absPath \<Rightarrow>
          (case ConvertPathsToAbsolutePaths w paths of
             Inl err \<Rightarrow> Inl err
           | Inr res \<Rightarrow> Inr (absPath # res)))"

subsection \<open>The functions of config.go\<close>

text \<open>
  \<open>processConfigFile\<close> (lines 178-206). The store is returned updated; closing the
  file only prints a line when it fails.
\<close>

definition processConfigFile :: "world \<Rightarrow> string \<Rightarrow> settings \<Rightarrow> error + settings" where
  "processConfigFile w path v =
     (if \<not> FileExists w path then Inr v
      else (case os_Open w path of
              Inl err \<Rightarrow> Inl err
            | Inr reader \<Rightarrow>
                (case MergeConfig w reader v of
                   Inl err \<Rightarrow> Inl err
                 | Inr v' \<Rightarrow> Inr v')))"

text \<open>\<open>processEnvVars\<close> (lines 208-226).\<close>

definition processEnvVars :: "world \<Rightarrow> Configuration \<Rightarrow> Configuration" where
  "processEnvVars w Config =
     (let stackDirs = os_Getenv w ''ATMOS_STACK_DIRS'';
          Config1 = (if length stackDirs > 0
                     then Config\<lparr>StackDirs := strings_Split stackDirs CHR '',''\<rparr>
                     else Config);
          terraformDir = os_Getenv w ''ATMOS_TERRAFORM_DIR'';
          Config2 = (if length terraformDir > 0
                     then Config1\<lparr>TerraformDir := terraformDir\<rparr>
                     else Config1);
          stackNamePattern = os_Getenv w ''ATMOS_STACK_NAME_PATTERN''
      in if length stackNamePattern > 0
         then Config2\<lparr>StackNamePattern := stackNamePattern\<rparr>
         else Config2)"

text \<open>\<open>checkConfig\<close> (lines 228-240).\<close>

definition checkConfig :: "Configuration \<Rightarrow> error option" where
  "checkConfig Config =
     (if length (StackDirs Config) < 1 then
        Some (Error ''At least one path to stack config must be provided in 'StackDirs' or 'ATMOS_STACK_DIRS' ENV variable'')
      else if length (TerraformDir Config) < 1 then
        Some (Error ''Terraform dir must be provided in 'TerraformDir' or 'ATMOS_TERRAFORM_DIR' ENV variable'')
      else if length (StackNamePattern Config) < 1 then
        Some (Error ''Stack name pattern must be provided in 'StackNamePattern' or 'ATMOS_STACK_NAME_PATTERN' ENV variable'')
      else None)"

text \<open>
  \<open>findAllStackConfigsInPaths\<close> (lines 243-268). The loop over \<open>pathGlobs\<close> is
  \<open>findAll_loop\<close>, with the slice \<open>res\<close> as its accumulator; a \<open>nil\<close> and an
  empty list of matches are both the empty list.
\<close>

fun findAll_loop :: "world \<Rightarrow> string list \<Rightarrow> string list \<Rightarrow> error + string list" where
  "findAll_loop w res [] = Inr res"
| "findAll_loop w res (p # pathGlobs) =
     (let ext = filepath_Ext w p;
          pathWithExt = (if ext = [] then p @ DefaultStackConfigFileExtension else p)
      in case doublestar_Glob w pathWithExt of
           Inl err \<Rightarrow> Inl err
         | Inr matches \<Rightarrow>
             findAll_loop w (if length matches > 0 then res @ matches else res) pathGlobs)"

definition findAllStackConfigsInPaths :: "world \<Rightarrow> string list \<Rightarrow> error + string list" where
  "findAllStackConfigsInPaths w pathGlobs = findAll_loop w [] pathGlobs"

text \<open>
  \<open>InitConfig\<close> (lines 53-173). The first argument of the result is the returned
  error, the second the record \<open>Config\<close> as the call leaves it.
\<close>

definition InitConfig :: "world \<Rightarrow> Configuration \<Rightarrow> error option \<times> Configuration" where
  "InitConfig w Config =
     (case MergeConfigMap viper_New defaultConfig of
        Inl err \<Rightarrow> (Some err, Config)
      | Inr v0 \<Rightarrow>
     (let configFilePath1 =
           (if GOOS w = ''windows''
            then (let appDataDir = os_Getenv w windowsAppDataEnvVar
                  in if length appDataDir > 0 then appDataDir else [])
            else systemDirConfigFilePath)
      in
     (case (if length configFilePath1 > 0
            then processConfigFile w (path_Join w [configFilePath1, configFileName]) v0
            else Inr v0) of
        Inl err \<Rightarrow> (Some err, Config)
      | Inr v1 \<Rightarrow>
     (case homedir_Dir w of
        Inl err \<Rightarrow> (Some err, Config)
      | Inr configFilePath2 \<Rightarrow>
     (case processConfigFile w (path_Join w [configFilePath2, ''.atmos'', configFileName]) v1 of
        Inl err \<Rightarrow> (Some err, Config)
      | Inr v2 \<Rightarrow>
     (case os_Getwd w of
        Inl err \<Rightarrow> (Some err, Config)
      | Inr configFilePath3 \<Rightarrow>
     (case processConfigFile w (path_Join w [configFilePath3, configFileName]) v2 of
        Inl err \<Rightarrow> (Some err, Config)
      | Inr v3 \<Rightarrow>
     (case Unmarshal v3 Config of
        Inl err \<Rightarrow> (Some err, Config)
      | Inr Config1 \<Rightarrow>
     (let Config2 = processEnvVars w Config1 in
     (case checkConfig Config2 of
        Some err \<Rightarrow> (Some err, Config2)
      | None \<Rightarrow>
     (case ConvertPathsToAbsolutePaths w (StackDirs Config2) of
        Inl err \<Rightarrow> (Some err, Config2)
      | Inr absPaths \<Rightarrow>
     (let Config3 = Config2\<lparr>StackDirsAbsolutePaths := absPaths\<rparr> in
     (case filepath_Abs w (TerraformDir Config3) of
        Inl err \<Rightarrow> (Some err, Config3)
      | Inr terraformDirAbsPath \<Rightarrow>
     (let Config4 = Config3\<lparr>TerraformDirAbsolutePath := terraformDirAbsPath\<rparr> in
     (case findAllStackConfigsInPaths w absPaths of
        Inl err \<Rightarrow> (Some err, Config4)
      | Inr stackConfigFiles \<Rightarrow>
     (if length stackConfigFiles < 1 then
        (Some (Error (''No config files found in any of the provided path globs:'' @ [CHR 0x0A]
                       @ json_MarshalIndent w absPaths @ [CHR 0x0A])),
         Config4)
      else (None, Config4\<lparr>StackConfigFiles := stackConfigFiles\<rparr>)))))))))))))))))"

subsection \<open>The stages of \<open>InitConfig\<close>\<close>

text \<open>
  The directory of the system-wide file (lines 75-88); empty when there is none
  (on Windows, when \<open>LOCALAPPDATA\<close> is unset or empty).
\<close>

definition configFilePath1 :: "world \<Rightarrow> string" where
  "configFilePath1 w =
     (if GOOS w = ''windows''
      then (let appDataDir = os_Getenv w windowsAppDataEnvVar
            in if length appDataDir > 0 then appDataDir else [])
      else systemDirConfigFilePath)"

text \<open>The three candidate files (lines 91, 103 and 114).\<close>

definition configFile1 :: "world \<Rightarrow> string" where
  "configFile1 w = path_Join w [configFilePath1 w, configFileName]"

definition configFile2 :: "world \<Rightarrow> string \<Rightarrow> string" where
  "configFile2 w home = path_Join w [home, ''.atmos'', configFileName]"

definition configFile3 :: "world \<Rightarrow> string \<Rightarrow> string" where
  "configFile3 w cwd = path_Join w [cwd, configFileName]"

text \<open>Lines 64-118: the store after the defaults and the three files.\<close>

definition loadStore :: "world \<Rightarrow> error + settings" where
  "loadStore w =
     (case MergeConfigMap viper_New defaultConfig of
        Inl err \<Rightarrow> Inl err
      | Inr v0 \<Rightarrow>
     (case (if length (configFilePath1 w) > 0
            then processConfigFile w (configFile1 w) v0
            else Inr v0) of
        Inl err \<Rightarrow> Inl err
      | Inr v1 \<Rightarrow>
     (case homedir_Dir w of
        Inl err \<Rightarrow> Inl err
      | Inr home \<Rightarrow>
     (case processConfigFile w (configFile2 w home) v1 of
        Inl err \<Rightarrow> Inl err
      | Inr v2 \<Rightarrow>
     (case os_Getwd w of
        Inl err \<Rightarrow> Inl err
      | Inr cwd \<Rightarrow> processConfigFile w (configFile3 w cwd) v2)))))"

text \<open>
  Lines 64-128: the record after the files are merged and decoded and the environment
  variables are applied, as \<open>checkConfig\<close> receives it.
\<close>

definition populate :: "world \<Rightarrow> Configuration \<Rightarrow> error + Configuration" where
  "populate w Config =
     (case loadStore w of
        Inl err \<Rightarrow> Inl err
      | Inr v \<Rightarrow>
     (case Unmarshal v Config of
        Inl err \<Rightarrow> Inl err
      | Inr Config1 \<Rightarrow> Inr (processEnvVars w Config1)))"

text \<open>Lines 136-172: path normalization and the discovery of the stack files.\<close>

definition normalizeAndDiscover :: "world \<Rightarrow> Configuration \<Rightarrow> error option \<times> Configuration" where
  "normalizeAndDiscover w Config2 =
     (case ConvertPathsToAbsolutePaths w (StackDirs Config2) of
        Inl err \<Rightarrow> (Some err, Config2)
      | Inr absPaths \<Rightarrow>
     (let Config3 = Config2\<lparr>StackDirsAbsolutePaths := absPaths\<rparr> in
     (case filepath_Abs w (TerraformDir Config3) of
        Inl err \<Rightarrow> (Some err, Config3)
      | Inr terraformDirAbsPath \<Rightarrow>
     (let Config4 = Config3\<lparr>TerraformDirAbsolutePath := terraformDirAbsPath\<rparr> in
     (case findAllStackConfigsInPaths w absPaths of
        Inl err \<Rightarrow> (Some err, Config4)
      | Inr stackConfigFiles \<Rightarrow>
     (if length stackConfigFiles < 1 then
        (Some (Error (''No config files found in any of the provided path globs:'' @ [CHR 0x0A]
                       @ json_MarshalIndent w absPaths @ [CHR 0x0A])),
         Config4)
      else (None, Config4\<lparr>StackConfigFiles := stackConfigFiles\<rparr>)))))))"

text \<open>
  The pattern that is handed to the glob library for one entry of \<open>pathGlobs\<close>
  (lines 247-253), and the matches of that entry (none when the library fails).
\<close>

definition pathWithExt :: "world \<Rightarrow> string \<Rightarrow> string" where
  "pathWithExt w p =
     (if filepath_Ext w p = [] then p @ DefaultStackConfigFileExtension else p)"

definition matchesOf :: "world \<Rightarrow> string \<Rightarrow> string list" where
  "matchesOf w p =
     (case doublestar_Glob w (pathWithExt w p) of Inl err \<Rightarrow> [] | Inr matches \<Rightarrow> matches)"

subsection \<open>The sources of the specification\<close>

text \<open>
  The specification speaks of layers: each source sets some of the three keys, and a
  key takes the value of the highest-priority source that sets it. \<open>highestPriority\<close>
  takes what the sources say about one key, in ascending priority.
\<close>

fun highestPriority :: "'a option list \<Rightarrow> 'a option" where
  "highestPriority [] = None"
| "highestPriority (x # xs) =
     (case highestPriority xs of Some y \<Rightarrow> Some y | None \<Rightarrow> x)"

text \<open>
  What a candidate file sets: nothing when the file does not exist, its parsed keys
  when it can be opened and parsed, an error otherwise.
\<close>

definition fileSource :: "world \<Rightarrow> string \<Rightarrow> error + settings" where
  "fileSource w path =
     (if \<not> FileExists w path then Inr viper_New
      else (case os_Open w path of
              Inl err \<Rightarrow> Inl err
            | Inr reader \<Rightarrow> ReadConfig w reader))"

text \<open>The system-wide source: there may be no system candidate at all.\<close>

definition systemSource :: "world \<Rightarrow> error + settings" where
  "systemSource w =
     (if configFilePath1 w = [] then Inr viper_New else fileSource w (configFile1 w))"

text \<open>
  What the environment sets: a variable sets its key when it is set to a non-empty
  value; the stack directories are given as a comma-separated list.
\<close>

definition envValue :: "world \<Rightarrow> string \<Rightarrow> string option" where
  "envValue w key =
     (case environ w key of
        None \<Rightarrow> None
      | Some val \<Rightarrow> (if val = [] then None else Some val))"

definition envSource :: "world \<Rightarrow> settings" where
  "envSource w =
     \<lparr> keyStackDirs = map_option (\<lambda>s. strings_Split s CHR '','') (envValue w ''ATMOS_STACK_DIRS''),
       keyTerraformDir = envValue w ''ATMOS_TERRAFORM_DIR'',
       keyStackNamePattern = envValue w ''ATMOS_STACK_NAME_PATTERN'' \<rparr>"

subsection \<open>An example world\<close>

text \<open>
  A Linux machine with home directory \<open>/home/user\<close> and working directory \<open>/work\<close>,
  built from an environment, the configuration files (a path with what parsing it
  gives) and the list of the other files. Its glob library answers patterns made of
  literal characters, \<open>?\<close> and \<open>*\<close> (neither crosses a \<open>/\<close>).
\<close>

fun globMatch :: "string \<Rightarrow> string \<Rightarrow> bool" where
  "globMatch [] s = (s = [])"
| "globMatch (p # ps) [] = (p = CHR ''*'' \<and> globMatch ps [])"
| "globMatch (p # ps) (c # cs) =
     (if p = CHR ''*'' then globMatch ps (c # cs) \<or> (c \<noteq> CHR ''/'' \<and> globMatch (p # ps) cs)
      else (p = c \<or> (p = CHR ''?'' \<and> c \<noteq> CHR ''/'')) \<and> globMatch ps cs)"

fun joinElems :: "string list \<Rightarrow> string" where
  "joinElems [] = []"
| "joinElems [e] = e"
| "joinElems (e # es) = e @ ''/'' @ joinElems es"

definition absFrom :: "string \<Rightarrow> string \<Rightarrow> string" where
  "absFrom cwd p =
     (if p = [] then cwd
      else if hd p = CHR ''/'' then p
      else if take 2 p = ''./'' then cwd @ ''/'' @ drop 2 p
      else cwd @ ''/'' @ p)"

fun marshalElems :: "string list \<Rightarrow> string" where
  "marshalElems [] = []"
| "marshalElems [e] = ''  '' @ [CHR 0x22] @ e @ [CHR 0x22, CHR 0x0A]"
| "marshalElems (e # es) = ''  '' @ [CHR 0x22] @ e @ [CHR 0x22, CHR '','', CHR 0x0A] @ marshalElems es"

definition exampleWorld ::
  "(string \<times> string) list \<Rightarrow> (string \<times> (error + settings)) list \<Rightarrow> string list \<Rightarrow> world" where
  "exampleWorld env configs files =
     \<lparr> GOOS = ''linux'',
       environ = map_of env,
       homedir_Dir = Inr ''/home/user'',
       os_Getwd = Inr ''/work'',
       FileExists = (\<lambda>path. path \<in> set (map fst configs)),
       os_Open = (\<lambda>path. if path \<in> set (map fst configs) then Inr path
                          else Inl (Error ''no such file or directory'')),
       ReadConfig = (\<lambda>reader. case map_of configs reader of
                                 None \<Rightarrow> Inl (Error ''bad file descriptor'')
                               | Some parsed \<Rightarrow> parsed),
       path_Join = joinElems,
       filepath_Abs = (\<lambda>p. Inr (absFrom ''/work'' p)),
       doublestar_Glob = (\<lambda>pattern. Inr (filter (globMatch pattern) files)),
       json_MarshalIndent =
         (\<lambda>xs. if xs = [] then ''[]'' else ''['' @ [CHR 0x0A] @ marshalElems xs @ '']'') \<rparr>"

text \<open>The record \<open>Config\<close> when the process starts: every field is zero.\<close>

definition zeroConfig :: Configuration where
  "zeroConfig =
     \<lparr> StackNamePattern = [], StackDirs = [], StackDirsAbsolutePaths = [],
       TerraformDir = [], TerraformDirAbsolutePath = [], StackConfigFiles = [] \<rparr>"

subsection \<open>Example worlds\<close>

text \<open>
  The file \<open>/work/atmos.yaml\<close> sets \<open>TerraformDir\<close> to the empty string; no
  environment variable is set.
\<close>

definition emptyTerraformWorld :: world where
  "emptyTerraformWorld =
     exampleWorld []
       [(''/work/atmos.yaml'',
         Inr \<lparr> keyStackDirs = None, keyTerraformDir = Some [], keyStackNamePattern = None \<rparr>)]
       [''/work/stacks/dev.yaml'']"

text \<open>\<open>ATMOS_STACK_DIRS\<close> is a single comma; there is no configuration file.\<close>

definition commaWorld :: world where
  "commaWorld = exampleWorld [(''ATMOS_STACK_DIRS'', '','')] [] [''/work/stacks/dev.yaml'']"

text \<open>
  Two stack files under \<open>/work/stacks\<close>; no configuration file, no environment
  variable: every key has its default.
\<close>

definition stacksWorld :: world where
  "stacksWorld = exampleWorld [] [] [''/work/stacks/dev.yaml'', ''/work/stacks/prod.yaml'']"

text \<open>
  The file \<open>/work/fixtures/stacks/x.yaml\<close> and nothing else, with the stack
  directories given as \<open>./fixtures/stacks\<close>.
\<close>

definition fixtureWorld :: world where
  "fixtureWorld =
     exampleWorld [(''ATMOS_STACK_DIRS'', ''./fixtures/stacks'')] []
       [''/work/fixtures/stacks/x.yaml'']"

text \<open>The file \<open>/work/atmos.yaml\<close> exists and is not valid YAML.\<close>

definition malformedWorld :: world where
  "malformedWorld =
     exampleWorld []
       [(''/work/atmos.yaml'', Inl (Error ''yaml: line 1: did not find expected key''))]
       [''/work/stacks/dev.yaml'']"

text \<open>
  All four sources at once: the system-wide file sets the three keys, the file in the
  home directory sets two of them, the file in the working directory one, and the
  environment sets the terraform directory.
\<close>

definition layeredWorld :: world where
  "layeredWorld =
     exampleWorld [(''ATMOS_TERRAFORM_DIR'', ''env-tf'')]
       [(''/usr/local/etc/atmos/atmos.yaml'',
         Inr \<lparr> keyStackDirs = Some [''sys/*''], keyTerraformDir = Some ''sys-tf'',
               keyStackNamePattern = Some ''sys-pattern'' \<rparr>),
        (''/home/user/.atmos/atmos.yaml'',
         Inr \<lparr> keyStackDirs = Some [''home/*''], keyTerraformDir = Some ''home-tf'',
               keyStackNamePattern = None \<rparr>),
        (''/work/atmos.yaml'',
         Inr \<lparr> keyStackDirs = Some [''cwd/*''], keyTerraformDir = None,
               keyStackNamePattern = None \<rparr>)]
       [''/work/cwd/dev.yaml'']"

text \<open>
  \<open>ATMOS_STACK_DIRS\<close> is \<open>a,b,c\<close> while the file in the working directory sets other
  stack directories.
\<close>

definition envDirsWorld :: world where
  "envDirsWorld =
     exampleWorld [(''ATMOS_STACK_DIRS'', ''a,b,c'')]
       [(''/work/atmos.yaml'',
         Inr \<lparr> keyStackDirs = Some [''./other/*''], keyTerraformDir = None,
               keyStackNamePattern = None \<rparr>)]
       [''/work/a.yaml'']"

section \<open>The stages compose to \<open>InitConfig\<close>\<close>

lemma InitConfig_stages:
  "InitConfig w Config =
     (case populate w Config of
        Inl err \<Rightarrow> (Some err, Config)
      | Inr Config2 \<Rightarrow>
          (case checkConfig Config2 of
             Some err \<Rightarrow> (Some err, Config2)
           | None \<Rightarrow> normalizeAndDiscover w Config2))"
  by (simp add: InitConfig_def populate_def loadStore_def normalizeAndDiscover_def
      configFilePath1_def configFile1_def configFile2_def configFile3_def Let_def
      split: sum.split option.split)

lemma processConfigFile_fileSource:
  "processConfigFile w path v =
     (case fileSource w path of Inl err \<Rightarrow> Inl err | Inr cfg \<Rightarrow> Inr (mergeMaps cfg v))"
  by (cases v) (simp add: processConfigFile_def fileSource_def MergeConfig_def mergeMaps_def
      viper_New_def split: sum.split)

lemma loadStore_sources:
  "loadStore w =
     (case systemSource w of
        Inl err \<Rightarrow> Inl err
      | Inr sys \<Rightarrow>
     (case homedir_Dir w of
        Inl err \<Rightarrow> Inl err
      | Inr home \<Rightarrow>
     (case fileSource w (configFile2 w home) of
        Inl err \<Rightarrow> Inl err
      | Inr usr \<Rightarrow>
     (case os_Getwd w of
        Inl err \<Rightarrow> Inl err
      | Inr cwd \<Rightarrow>
     (case fileSource w (configFile3 w cwd) of
        Inl err \<Rightarrow> Inl err
      | Inr cur \<Rightarrow>
          Inr (mergeMaps cur (mergeMaps usr (mergeMaps sys defaultConfig))))))))"
  by (simp add: loadStore_def processConfigFile_fileSource systemSource_def MergeConfigMap_def
      mergeMaps_def viper_New_def defaultConfig_def split: sum.split)

section \<open>The populated record\<close>

lemma processEnvVars_derived:
  "StackDirsAbsolutePaths (processEnvVars w c) = StackDirsAbsolutePaths c \<and>
   TerraformDirAbsolutePath (processEnvVars w c) = TerraformDirAbsolutePath c \<and>
   StackConfigFiles (processEnvVars w c) = StackConfigFiles c"
  by (simp add: processEnvVars_def Let_def)

lemma processEnvVars_StackDirs:
  "StackDirs (processEnvVars w c) =
     (if os_Getenv w ''ATMOS_STACK_DIRS'' = [] then StackDirs c
      else strings_Split (os_Getenv w ''ATMOS_STACK_DIRS'') CHR '','')"
  by (simp add: processEnvVars_def Let_def)

lemma processEnvVars_TerraformDir:
  "TerraformDir (processEnvVars w c) =
     (if os_Getenv w ''ATMOS_TERRAFORM_DIR'' = [] then TerraformDir c
      else os_Getenv w ''ATMOS_TERRAFORM_DIR'')"
  by (simp add: processEnvVars_def Let_def)

lemma processEnvVars_StackNamePattern:
  "StackNamePattern (processEnvVars w c) =
     (if os_Getenv w ''ATMOS_STACK_NAME_PATTERN'' = [] then StackNamePattern c
      else os_Getenv w ''ATMOS_STACK_NAME_PATTERN'')"
  by (simp add: processEnvVars_def Let_def)

lemma ConvertPaths_environ:
  "ConvertPathsToAbsolutePaths (w\<lparr>environ := e\<rparr>) ps = ConvertPathsToAbsolutePaths w ps"
  by (induction ps) (simp_all split: sum.split)

lemma findAll_loop_environ:
  "findAll_loop (w\<lparr>environ := e\<rparr>) res ps = findAll_loop w res ps"
  by (induction ps arbitrary: res) (simp_all add: filepath_Ext_def Let_def split: sum.split)

lemma processConfigFile_environ:
  "processConfigFile (w\<lparr>environ := e\<rparr>) path v = processConfigFile w path v"
  by (simp add: processConfigFile_def MergeConfig_def split: sum.split)

lemma normalizeAndDiscover_environ:
  "normalizeAndDiscover (w\<lparr>environ := e\<rparr>) c = normalizeAndDiscover w c"
  by (simp add: normalizeAndDiscover_def ConvertPaths_environ findAllStackConfigsInPaths_def
      findAll_loop_environ Let_def split: sum.split)

lemma InitConfig_environ:
  assumes "\<And>key. os_Getenv (w\<lparr>environ := e1\<rparr>) key = os_Getenv (w\<lparr>environ := e2\<rparr>) key"
  shows "InitConfig (w\<lparr>environ := e1\<rparr>) Config = InitConfig (w\<lparr>environ := e2\<rparr>) Config"
proof -
  have env: "processEnvVars (w\<lparr>environ := e1\<rparr>) c = processEnvVars (w\<lparr>environ := e2\<rparr>) c" for c
    by (simp add: processEnvVars_def assms)
  have path1: "configFilePath1 (w\<lparr>environ := e1\<rparr>) = configFilePath1 (w\<lparr>environ := e2\<rparr>)"
    by (simp add: configFilePath1_def assms)
  have load: "loadStore (w\<lparr>environ := e1\<rparr>) = loadStore (w\<lparr>environ := e2\<rparr>)"
    by (simp add: loadStore_def processConfigFile_environ path1 configFile1_def configFile2_def
        configFile3_def split: sum.split)
  have "populate (w\<lparr>environ := e1\<rparr>) Config = populate (w\<lparr>environ := e2\<rparr>) Config"
    by (simp add: populate_def load env split: sum.split)
  then show ?thesis
    by (simp add: InitConfig_stages normalizeAndDiscover_environ split: sum.split option.split)
qed

lemma os_Getenv_empty_unset:
  "os_Getenv (w\<lparr>environ := (environ w)(var \<mapsto> [])\<rparr>) key =
   os_Getenv (w\<lparr>environ := (environ w)(var := None)\<rparr>) key"
  by (simp add: os_Getenv_def)

section \<open>Validation\<close>

lemma checkConfig_None_iff:
  "checkConfig c = None \<longleftrightarrow>
     StackDirs c \<noteq> [] \<and> TerraformDir c \<noteq> [] \<and> StackNamePattern c \<noteq> []"
  by (simp add: checkConfig_def)

section \<open>Splitting and normalizing\<close>

lemma strings_Split_commas:
  "strings_Split (replicate n CHR '','') CHR '','' = replicate (Suc n) []"
  by (induction n) simp_all

lemma ConvertPaths_replicate:
  "ConvertPathsToAbsolutePaths w (replicate n p) =
     (if n = 0 then Inr []
      else (case filepath_Abs w p of Inl err \<Rightarrow> Inl err | Inr a \<Rightarrow> Inr (replicate n a)))"
  by (induction n) (simp_all split: sum.split)

lemma populate_StackDirs_env:
  assumes "populate w Config = Inr c" and "environ w ''ATMOS_STACK_DIRS'' = Some s" and "s \<noteq> []"
  shows "StackDirs c = strings_Split s CHR '',''"
  using assms
  by (auto simp: populate_def processEnvVars_StackDirs os_Getenv_def split: sum.splits)

section \<open>Facts about the example worlds\<close>

lemma emptyTerraformWorld_populate:
  "populate emptyTerraformWorld zeroConfig =
     Inr \<lparr> StackNamePattern = ''environment-stage'', StackDirs = [''./stacks/*''],
           StackDirsAbsolutePaths = [], TerraformDir = [], TerraformDirAbsolutePath = [],
           StackConfigFiles = [] \<rparr>"
  by code_simp

lemma commaWorld_env: "environ commaWorld ''ATMOS_STACK_DIRS'' = Some (replicate (Suc 0) CHR '','')"
  by (simp add: commaWorld_def exampleWorld_def)

lemma commaWorld_populate:
  "populate commaWorld zeroConfig =
     Inr \<lparr> StackNamePattern = ''environment-stage'', StackDirs = [[], []],
           StackDirsAbsolutePaths = [], TerraformDir = ''./components/terraform'',
           TerraformDirAbsolutePath = [], StackConfigFiles = [] \<rparr>"
  by code_simp

section \<open>The discovery loop\<close>

lemma findAll_loop_Cons:
  "findAll_loop w res (p # ps) =
     (case doublestar_Glob w (pathWithExt w p) of
        Inl err \<Rightarrow> Inl err
      | Inr ms \<Rightarrow> findAll_loop w (res @ ms) ps)"
proof -
  have "(if 0 < length ms then res @ ms else res) = res @ ms" for ms :: "string list"
    by simp
  then show ?thesis
    by (simp add: Let_def pathWithExt_def split: sum.split)
qed

lemma findAll_loop_Inr:
  "findAll_loop w res ps = Inr out \<Longrightarrow> out = res @ concat (map (matchesOf w) ps)"
proof (induction ps arbitrary: res)
  case Nil
  then show ?case by simp
next
  case (Cons p ps)
  from Cons.prems obtain ms where ms: "doublestar_Glob w (pathWithExt w p) = Inr ms"
    and rest: "findAll_loop w (res @ ms) ps = Inr out"
    by (auto simp: findAll_loop_Cons simp del: findAll_loop.simps split: sum.splits)
  from ms have "matchesOf w p = ms"
    by (simp add: matchesOf_def)
  with Cons.IH [OF rest] show ?case
    by simp
qed

lemma findAll_loop_succeeds:
  "(\<forall>p \<in> set ps. \<exists>ms. doublestar_Glob w (pathWithExt w p) = Inr ms) \<Longrightarrow>
     findAll_loop w res ps = Inr (res @ concat (map (matchesOf w) ps))"
proof (induction ps arbitrary: res)
  case Nil
  then show ?case by simp
next
  case (Cons p ps)
  then obtain ms where ms: "doublestar_Glob w (pathWithExt w p) = Inr ms" by auto
  have rest: "findAll_loop w r ps = Inr (r @ concat (map (matchesOf w) ps))" for r
    using Cons by simp
  from ms have "matchesOf w p = ms"
    by (simp add: matchesOf_def)
  with ms show ?case
    by (simp add: findAll_loop_Cons rest del: findAll_loop.simps)
qed

lemma findAll_loop_fails:
  "doublestar_Glob w (pathWithExt w p) = Inl err \<Longrightarrow> p \<in> set ps \<Longrightarrow>
     \<exists>e. findAll_loop w res ps = Inl e"
proof (induction ps arbitrary: res)
  case Nil
  then show ?case by simp
next
  case (Cons q ps)
  show ?case
  proof (cases "doublestar_Glob w (pathWithExt w q)")
    case (Inl e)
    then show ?thesis
      by (simp add: findAll_loop_Cons del: findAll_loop.simps)
  next
    case (Inr ms)
    with Cons.prems have "p \<in> set ps" by auto
    from Cons.IH [OF Cons.prems(1) this] Inr show ?thesis
      by (simp add: findAll_loop_Cons del: findAll_loop.simps)
  qed
qed

lemma count_list_concat:
  "count_list (concat xss) x = sum_list (map (\<lambda>xs. count_list xs x) xss)"
  by (induction xss) simp_all

lemma count_list_distinct: "distinct xs \<Longrightarrow> count_list xs x = (if x \<in> set xs then 1 else 0)"
  by (induction xs) auto

lemma count_distinct_lists:
  "(\<forall>p \<in> set ps. distinct (g p)) \<Longrightarrow>
     sum_list (map (\<lambda>p. count_list (g p) x) ps) = length (filter (\<lambda>p. x \<in> set (g p)) ps)"
  by (induction ps) (simp_all add: count_list_distinct)

section \<open>Discovery, one pattern at a time\<close>

lemma findAll_loop_acc:
  "findAll_loop w res ps =
     (case findAll_loop w [] ps of Inl err \<Rightarrow> Inl err | Inr out \<Rightarrow> Inr (res @ out))"
proof (induction ps arbitrary: res)
  case Nil
  then show ?case by simp
next
  case (Cons p ps)
  show ?case
  proof (cases "doublestar_Glob w (pathWithExt w p)")
    case (Inl err)
    then show ?thesis
      by (simp add: findAll_loop_Cons del: findAll_loop.simps)
  next
    case (Inr ms)
    have "findAll_loop w (res @ ms) ps =
        (case findAll_loop w ms ps of Inl err \<Rightarrow> Inl err | Inr out \<Rightarrow> Inr (res @ out))"
      using Cons.IH [of "res @ ms"] Cons.IH [of ms]
      by (cases "findAll_loop w [] ps") simp_all
    with Inr show ?thesis
      by (simp add: findAll_loop_Cons del: findAll_loop.simps)
  qed
qed

lemma findAllStackConfigsInPaths_Cons:
  "findAllStackConfigsInPaths w (p # pathGlobs) =
     (case doublestar_Glob w (pathWithExt w p) of
        Inl err \<Rightarrow> Inl err
      | Inr ms \<Rightarrow>
          (case findAllStackConfigsInPaths w pathGlobs of
             Inl err \<Rightarrow> Inl err
           | Inr rest \<Rightarrow> Inr (ms @ rest)))"
proof (cases "doublestar_Glob w (pathWithExt w p)")
  case (Inl err)
  then show ?thesis
    by (simp add: findAllStackConfigsInPaths_def findAll_loop_Cons del: findAll_loop.simps)
next
  case (Inr ms)
  have "findAll_loop w ms pathGlobs =
      (case findAll_loop w [] pathGlobs of Inl err \<Rightarrow> Inl err | Inr out \<Rightarrow> Inr (ms @ out))"
    by (rule findAll_loop_acc)
  with Inr show ?thesis
    by (simp add: findAllStackConfigsInPaths_def findAll_loop_Cons del: findAll_loop.simps)
qed

section \<open>More facts about the example worlds\<close>

lemma stacksWorld_run:
  "findAllStackConfigsInPaths stacksWorld [''/work/stacks/*'', ''/work/stacks/dev.yaml'', ''/work/stacks/d*'']
     = Inr [''/work/stacks/dev.yaml'', ''/work/stacks/prod.yaml'', ''/work/stacks/dev.yaml'',
            ''/work/stacks/dev.yaml'']"
  by code_simp

lemma stacksWorld_distinct:
  "\<forall>p \<in> set [''/work/stacks/*'', ''/work/stacks/dev.yaml'', ''/work/stacks/d*''].
     distinct (matchesOf stacksWorld p)"
  by code_simp

lemma stacksWorld_matching:
  "length (filter (\<lambda>p. ''/work/stacks/dev.yaml'' \<in> set (matchesOf stacksWorld p))
     [''/work/stacks/*'', ''/work/stacks/dev.yaml'', ''/work/stacks/d*'']) = 3"
  by code_simp

lemma stacksWorld_populate:
  "populate stacksWorld zeroConfig =
     Inr \<lparr> StackNamePattern = ''environment-stage'', StackDirs = [''./stacks/*''],
           StackDirsAbsolutePaths = [], TerraformDir = ''./components/terraform'',
           TerraformDirAbsolutePath = [], StackConfigFiles = [] \<rparr>"
  by code_simp

lemma stacksWorld_check:
  "checkConfig \<lparr> StackNamePattern = ''environment-stage'', StackDirs = [''./stacks/*''],
           StackDirsAbsolutePaths = [], TerraformDir = ''./components/terraform'',
           TerraformDirAbsolutePath = [], StackConfigFiles = [] \<rparr> = None"
  by code_simp

lemma stacksWorld_paths:
  "ConvertPathsToAbsolutePaths stacksWorld
     (StackDirs \<lparr> StackNamePattern = ''environment-stage'', StackDirs = [''./stacks/*''],
           StackDirsAbsolutePaths = [], TerraformDir = ''./components/terraform'',
           TerraformDirAbsolutePath = [], StackConfigFiles = [] \<rparr>) = Inr [''/work/stacks/*'']"
  by code_simp

lemma stacksWorld_terraform:
  "filepath_Abs stacksWorld
     (TerraformDir \<lparr> StackNamePattern = ''environment-stage'', StackDirs = [''./stacks/*''],
           StackDirsAbsolutePaths = [], TerraformDir = ''./components/terraform'',
           TerraformDirAbsolutePath = [], StackConfigFiles = [] \<rparr>)
     = Inr ''/work/components/terraform''"
  by code_simp

lemma stacksWorld_discovery:
  "findAllStackConfigsInPaths stacksWorld [''/work/stacks/*'']
     = Inr [''/work/stacks/dev.yaml'', ''/work/stacks/prod.yaml'']"
  by code_simp

lemma commaWorld_check:
  "checkConfig \<lparr> StackNamePattern = ''environment-stage'', StackDirs = [[], []],
           StackDirsAbsolutePaths = [], TerraformDir = ''./components/terraform'',
           TerraformDirAbsolutePath = [], StackConfigFiles = [] \<rparr> = None"
  by code_simp

lemma commaWorld_paths:
  "ConvertPathsToAbsolutePaths commaWorld
     (StackDirs \<lparr> StackNamePattern = ''environment-stage'', StackDirs = [[], []],
           StackDirsAbsolutePaths = [], TerraformDir = ''./components/terraform'',
           TerraformDirAbsolutePath = [], StackConfigFiles = [] \<rparr>) = Inr [''/work'', ''/work'']"
  by code_simp

lemma commaWorld_terraform:
  "filepath_Abs commaWorld
     (TerraformDir \<lparr> StackNamePattern = ''environment-stage'', StackDirs = [[], []],
           StackDirsAbsolutePaths = [], TerraformDir = ''./components/terraform'',
           TerraformDirAbsolutePath = [], StackConfigFiles = [] \<rparr>)
     = Inr ''/work/components/terraform''"
  by code_simp

lemma commaWorld_discovery:
  "findAllStackConfigsInPaths commaWorld [''/work'', ''/work''] = Inr []"
  by code_simp

section \<open>The sources and the populated record\<close>

lemma InitConfig_loadStore_error:
  "loadStore w = Inl err \<Longrightarrow> InitConfig w Config = (Some err, Config)"
  by (simp add: InitConfig_stages populate_def)

lemma processConfigFile_Inl_iff:
  "processConfigFile w path v = Inl err \<longleftrightarrow> fileSource w path = Inl err"
  by (simp add: processConfigFile_fileSource split: sum.split)

lemma fileSource_Inl_iff:
  "fileSource w path = Inl err \<longleftrightarrow>
     FileExists w path \<and>
     (os_Open w path = Inl err \<or>
      (\<exists>reader. os_Open w path = Inr reader \<and> ReadConfig w reader = Inl err))"
  by (auto simp: fileSource_def split: sum.splits)

lemma InitConfig_fields:
  assumes "populate w Config = Inr c"
  shows "StackDirs (snd (InitConfig w Config)) = StackDirs c
       \<and> TerraformDir (snd (InitConfig w Config)) = TerraformDir c
       \<and> StackNamePattern (snd (InitConfig w Config)) = StackNamePattern c"
  using assms
  by (simp add: InitConfig_stages normalizeAndDiscover_def Let_def
      split: sum.split option.split)

lemma populate_loadStore:
  "loadStore w = Inr v \<Longrightarrow>
     populate w Config =
       Inr (processEnvVars w
         (Config\<lparr> StackNamePattern :=
                    (case keyStackNamePattern v of Some x \<Rightarrow> x | None \<Rightarrow> StackNamePattern Config),
                  StackDirs :=
                    (case keyStackDirs v of
                       Some xs \<Rightarrow> xs @ drop (length xs) (StackDirs Config)
                     | None \<Rightarrow> StackDirs Config),
                  TerraformDir :=
                    (case keyTerraformDir v of Some x \<Rightarrow> x | None \<Rightarrow> TerraformDir Config) \<rparr>))"
  by (simp add: populate_def Unmarshal_def)

lemma InitConfig_success_sources:
  assumes "fst (InitConfig w Config) = None"
  shows "\<exists>sys home usr cwd cur.
           systemSource w = Inr sys \<and> homedir_Dir w = Inr home \<and>
           fileSource w (configFile2 w home) = Inr usr \<and> os_Getwd w = Inr cwd \<and>
           fileSource w (configFile3 w cwd) = Inr cur"
proof -
  from assms obtain v where "loadStore w = Inr v"
    by (cases "loadStore w") (simp_all add: InitConfig_stages populate_def)
  then show ?thesis
    by (simp add: loadStore_sources split: sum.splits)
qed

lemma InitConfig_StackDirs_env:
  assumes "environ w ''ATMOS_STACK_DIRS'' = Some s" and "s \<noteq> []" and "loadStore w = Inr v"
  shows "StackDirs (snd (InitConfig w Config)) = strings_Split s CHR '',''"
proof -
  note pop = populate_loadStore [OF assms(3), of Config]
  from InitConfig_fields [OF pop] populate_StackDirs_env [OF pop assms(1,2)]
  show ?thesis by simp
qed

section \<open>Facts about the worlds with configuration files\<close>

lemma malformedWorld_sources:
  "systemSource malformedWorld = Inr viper_New \<and> homedir_Dir malformedWorld = Inr ''/home/user''
   \<and> fileSource malformedWorld (configFile2 malformedWorld ''/home/user'') = Inr viper_New
   \<and> os_Getwd malformedWorld = Inr ''/work''
   \<and> processConfigFile malformedWorld (configFile3 malformedWorld ''/work'') defaultConfig
       = Inl (Error ''yaml: line 1: did not find expected key'')"
  by code_simp

lemma malformedWorld_file:
  "configFile3 malformedWorld ''/work'' = ''/work/atmos.yaml''
   \<and> FileExists malformedWorld ''/work/atmos.yaml''
   \<and> \<not> FileExists malformedWorld (configFile2 malformedWorld ''/home/user'')"
  by code_simp

lemma layeredWorld_sys:
  "systemSource layeredWorld =
     Inr \<lparr> keyStackDirs = Some [''sys/*''], keyTerraformDir = Some ''sys-tf'',
           keyStackNamePattern = Some ''sys-pattern'' \<rparr>"
  by code_simp

lemma layeredWorld_home: "homedir_Dir layeredWorld = Inr ''/home/user''"
  by code_simp

lemma layeredWorld_usr:
  "fileSource layeredWorld (configFile2 layeredWorld ''/home/user'') =
     Inr \<lparr> keyStackDirs = Some [''home/*''], keyTerraformDir = Some ''home-tf'',
           keyStackNamePattern = None \<rparr>"
  by code_simp

lemma layeredWorld_cwd: "os_Getwd layeredWorld = Inr ''/work''"
  by code_simp

lemma layeredWorld_cur:
  "fileSource layeredWorld (configFile3 layeredWorld ''/work'') =
     Inr \<lparr> keyStackDirs = Some [''cwd/*''], keyTerraformDir = None,
           keyStackNamePattern = None \<rparr>"
  by code_simp

lemma layeredWorld_env:
  "envSource layeredWorld =
     \<lparr> keyStackDirs = None, keyTerraformDir = Some ''env-tf'', keyStackNamePattern = None \<rparr>"
  by code_simp

lemma layeredWorld_success: "fst (InitConfig layeredWorld zeroConfig) = None"
  by code_simp

lemma stacksWorld_nothing_set:
  "homedir_Dir stacksWorld = Inr ''/home/user'' \<and> os_Getwd stacksWorld = Inr ''/work''
   \<and> \<not> FileExists stacksWorld (configFile1 stacksWorld)
   \<and> \<not> FileExists stacksWorld (configFile2 stacksWorld ''/home/user'')
   \<and> \<not> FileExists stacksWorld (configFile3 stacksWorld ''/work'')
   \<and> os_Getenv stacksWorld ''ATMOS_STACK_DIRS'' = []
   \<and> os_Getenv stacksWorld ''ATMOS_TERRAFORM_DIR'' = []
   \<and> os_Getenv stacksWorld ''ATMOS_STACK_NAME_PATTERN'' = []"
  by code_simp

lemma envDirsWorld_facts:
  "environ envDirsWorld ''ATMOS_STACK_DIRS'' = Some ''a,b,c''
   \<and> loadStore envDirsWorld =
       Inr \<lparr> keyStackDirs = Some [''./other/*''],
             keyTerraformDir = Some ''./components/terraform'',
             keyStackNamePattern = Some ''environment-stage'' \<rparr>"
  by code_simp

section \<open>The claims\<close>

text \<open>
  C1. When the three candidate files can be read (a file that does not exist sets no
  key) and the home and working directories are known, each of \<open>StackDirs\<close>,
  \<open>TerraformDir\<close> and \<open>StackNamePattern\<close> ends up with the value of the
  highest-priority source that sets its key, in the order defaults, system-wide file,
  file in the home directory, file in the working directory, environment. This holds
  for the record that \<open>InitConfig\<close> leaves, whether or not a later stage fails. By
  \<open>InitConfig_success_sources\<close> the assumptions on the files and directories hold in
  every run that succeeds; \<open>StackDirs\<close> is empty before the call, as it is when the
  process starts.
\<close>

theorem priority_resolution:
  assumes "systemSource w = Inr sys"
    and "homedir_Dir w = Inr home"
    and "fileSource w (configFile2 w home) = Inr usr"
    and "os_Getwd w = Inr cwd"
    and "fileSource w (configFile3 w cwd) = Inr cur"
    and "StackDirs Config = []"
  shows "highestPriority
           [keyStackDirs defaultConfig, keyStackDirs sys, keyStackDirs usr, keyStackDirs cur,
            keyStackDirs (envSource w)]
         = Some (StackDirs (snd (InitConfig w Config)))
       \<and> highestPriority
           [keyTerraformDir defaultConfig, keyTerraformDir sys, keyTerraformDir usr,
            keyTerraformDir cur, keyTerraformDir (envSource w)]
         = Some (TerraformDir (snd (InitConfig w Config)))
       \<and> highestPriority
           [keyStackNamePattern defaultConfig, keyStackNamePattern sys, keyStackNamePattern usr,
            keyStackNamePattern cur, keyStackNamePattern (envSource w)]
         = Some (StackNamePattern (snd (InitConfig w Config)))"
proof -
  let ?v = "mergeMaps cur (mergeMaps usr (mergeMaps sys defaultConfig))"
  have load: "loadStore w = Inr ?v"
    using assms(1-5) by (simp add: loadStore_sources)
  note pop = populate_loadStore [OF load, of Config]
  note fields = InitConfig_fields [OF pop]
  have dirs: "highestPriority
           [keyStackDirs defaultConfig, keyStackDirs sys, keyStackDirs usr, keyStackDirs cur,
            keyStackDirs (envSource w)]
         = Some (StackDirs (snd (InitConfig w Config)))"
    using assms(6)
    by (simp add: fields processEnvVars_StackDirs os_Getenv_def envSource_def envValue_def
        mergeMaps_def defaultConfig_def split: option.split)
  have tf: "highestPriority
           [keyTerraformDir defaultConfig, keyTerraformDir sys, keyTerraformDir usr,
            keyTerraformDir cur, keyTerraformDir (envSource w)]
         = Some (TerraformDir (snd (InitConfig w Config)))"
    by (simp add: fields processEnvVars_TerraformDir os_Getenv_def envSource_def envValue_def
        mergeMaps_def defaultConfig_def split: option.split)
  have pat: "highestPriority
           [keyStackNamePattern defaultConfig, keyStackNamePattern sys, keyStackNamePattern usr,
            keyStackNamePattern cur, keyStackNamePattern (envSource w)]
         = Some (StackNamePattern (snd (InitConfig w Config)))"
    by (simp add: fields processEnvVars_StackNamePattern os_Getenv_def envSource_def envValue_def
        mergeMaps_def defaultConfig_def split: option.split)
  show ?thesis
    using dirs tf pat by simp
qed

theorem priority_resolution_witness:
  "StackDirs (snd (InitConfig layeredWorld zeroConfig)) = [''cwd/*'']
   \<and> TerraformDir (snd (InitConfig layeredWorld zeroConfig)) = ''env-tf''
   \<and> StackNamePattern (snd (InitConfig layeredWorld zeroConfig)) = ''sys-pattern''
   \<and> fst (InitConfig layeredWorld zeroConfig) = None"
  using priority_resolution [OF layeredWorld_sys layeredWorld_home layeredWorld_usr
      layeredWorld_cwd layeredWorld_cur, of zeroConfig] layeredWorld_success
  by (simp add: layeredWorld_env zeroConfig_def)

text \<open>
  C2. When none of the candidate files exists and none of the three \<open>ATMOS_*\<close>
  variables has a non-empty value, the three configurable fields are exactly the
  built-in defaults (for a record whose \<open>StackDirs\<close> is empty before the call, as it
  is when the process starts).
\<close>

theorem defaults_when_nothing_set:
  assumes "homedir_Dir w = Inr home" and "os_Getwd w = Inr cwd"
    and "configFilePath1 w = [] \<or> \<not> FileExists w (configFile1 w)"
    and "\<not> FileExists w (configFile2 w home)"
    and "\<not> FileExists w (configFile3 w cwd)"
    and "os_Getenv w ''ATMOS_STACK_DIRS'' = []"
    and "os_Getenv w ''ATMOS_TERRAFORM_DIR'' = []"
    and "os_Getenv w ''ATMOS_STACK_NAME_PATTERN'' = []"
    and "StackDirs Config = []"
  shows "StackDirs (snd (InitConfig w Config)) = [''./stacks/*'']
       \<and> TerraformDir (snd (InitConfig w Config)) = ''./components/terraform''
       \<and> StackNamePattern (snd (InitConfig w Config)) = ''environment-stage''"
proof -
  have sys: "systemSource w = Inr viper_New"
    using assms(3) by (auto simp: systemSource_def fileSource_def)
  have usr: "fileSource w (configFile2 w home) = Inr viper_New"
    using assms(4) by (simp add: fileSource_def)
  have cur: "fileSource w (configFile3 w cwd) = Inr viper_New"
    using assms(5) by (simp add: fileSource_def)
  have load: "loadStore w = Inr defaultConfig"
    using assms(1,2) sys usr cur
    by (simp add: loadStore_sources mergeMaps_def viper_New_def defaultConfig_def)
  note fields = InitConfig_fields [OF populate_loadStore [OF load, of Config]]
  show ?thesis
    using assms(6,7,8,9)
    by (simp add: fields processEnvVars_StackDirs processEnvVars_TerraformDir
        processEnvVars_StackNamePattern defaultConfig_def)
qed

theorem defaults_when_nothing_set_witness:
  "StackDirs (snd (InitConfig stacksWorld zeroConfig)) = [''./stacks/*'']
   \<and> TerraformDir (snd (InitConfig stacksWorld zeroConfig)) = ''./components/terraform''
   \<and> StackNamePattern (snd (InitConfig stacksWorld zeroConfig)) = ''environment-stage''
   \<and> \<not> FileExists stacksWorld (configFile1 stacksWorld)
   \<and> \<not> FileExists stacksWorld (configFile2 stacksWorld ''/home/user'')
   \<and> \<not> FileExists stacksWorld (configFile3 stacksWorld ''/work'')
   \<and> os_Getenv stacksWorld ''ATMOS_STACK_DIRS'' = []"
  using defaults_when_nothing_set [of stacksWorld "''/home/user''" "''/work''" zeroConfig]
    stacksWorld_nothing_set
  by (simp add: zeroConfig_def)

text \<open>
  C3. When \<open>ATMOS_STACK_DIRS\<close> has a non-empty value and the files can be loaded,
  \<open>StackDirs\<close> is that value split on commas, whatever the store \<open>v\<close> that the
  files and the defaults produce; the value \<open>a,b,c\<close> gives the three entries \<open>a\<close>,
  \<open>b\<close> and \<open>c\<close>.
\<close>

theorem stack_dirs_from_environment:
  assumes "environ w ''ATMOS_STACK_DIRS'' = Some s" and "s \<noteq> []" and "loadStore w = Inr v"
  shows "StackDirs (snd (InitConfig w Config)) = strings_Split s CHR '',''
       \<and> strings_Split ''a,b,c'' CHR '','' = [''a'', ''b'', ''c'']"
  using InitConfig_StackDirs_env [OF assms, of Config] by simp

theorem stack_dirs_from_environment_witness:
  "environ envDirsWorld ''ATMOS_STACK_DIRS'' = Some ''a,b,c''
   \<and> keyStackDirs (projr (loadStore envDirsWorld)) = Some [''./other/*'']
   \<and> StackDirs (snd (InitConfig envDirsWorld zeroConfig)) = [''a'', ''b'', ''c'']"
  using stack_dirs_from_environment [of envDirsWorld "''a,b,c''" _ zeroConfig] envDirsWorld_facts
  by simp

text \<open>
  C4. Processing a candidate file fails exactly when the file exists and cannot be
  opened or cannot be parsed, with the error of the open or of the parser. A file that
  does not exist leaves the store as it is. The first of the three candidate files
  that fails makes \<open>InitConfig\<close> return that error, with \<open>Config\<close> untouched.
\<close>

theorem candidate_file_fatal:
  "(\<not> FileExists w path \<longrightarrow> processConfigFile w path v = Inr v)
   \<and> (processConfigFile w path v = Inl err \<longleftrightarrow>
        FileExists w path \<and>
        (os_Open w path = Inl err \<or>
         (\<exists>reader. os_Open w path = Inr reader \<and> ReadConfig w reader = Inl err)))
   \<and> (configFilePath1 w \<noteq> [] \<and> processConfigFile w (configFile1 w) v1 = Inl err \<longrightarrow>
        InitConfig w Config = (Some err, Config))
   \<and> (systemSource w = Inr sys \<and> homedir_Dir w = Inr home \<and>
       processConfigFile w (configFile2 w home) v2 = Inl err \<longrightarrow>
        InitConfig w Config = (Some err, Config))
   \<and> (systemSource w = Inr sys \<and> homedir_Dir w = Inr home \<and>
       fileSource w (configFile2 w home) = Inr usr \<and> os_Getwd w = Inr cwd \<and>
       processConfigFile w (configFile3 w cwd) v3 = Inl err \<longrightarrow>
        InitConfig w Config = (Some err, Config))"
proof -
  have skip: "\<not> FileExists w path \<longrightarrow> processConfigFile w path v = Inr v"
    by (simp add: processConfigFile_def)
  have fatal: "processConfigFile w path v = Inl err \<longleftrightarrow>
        FileExists w path \<and>
        (os_Open w path = Inl err \<or>
         (\<exists>reader. os_Open w path = Inr reader \<and> ReadConfig w reader = Inl err))"
    by (simp only: processConfigFile_Inl_iff fileSource_Inl_iff)
  have first: "InitConfig w Config = (Some err, Config)"
    if "configFilePath1 w \<noteq> []" and "processConfigFile w (configFile1 w) v1 = Inl err"
  proof -
    from that have "loadStore w = Inl err"
      by (simp add: loadStore_sources systemSource_def processConfigFile_Inl_iff)
    then show ?thesis by (rule InitConfig_loadStore_error)
  qed
  have second: "InitConfig w Config = (Some err, Config)"
    if "systemSource w = Inr sys" and "homedir_Dir w = Inr home"
      and "processConfigFile w (configFile2 w home) v2 = Inl err"
  proof -
    from that have "loadStore w = Inl err"
      by (simp add: loadStore_sources processConfigFile_Inl_iff)
    then show ?thesis by (rule InitConfig_loadStore_error)
  qed
  have third: "InitConfig w Config = (Some err, Config)"
    if "systemSource w = Inr sys" and "homedir_Dir w = Inr home"
      and "fileSource w (configFile2 w home) = Inr usr" and "os_Getwd w = Inr cwd"
      and "processConfigFile w (configFile3 w cwd) v3 = Inl err"
  proof -
    from that have "loadStore w = Inl err"
      by (simp add: loadStore_sources processConfigFile_Inl_iff)
    then show ?thesis by (rule InitConfig_loadStore_error)
  qed
  show ?thesis
    using skip fatal first second third by blast
qed

theorem candidate_file_fatal_witness:
  "configFile3 malformedWorld ''/work'' = ''/work/atmos.yaml''
   \<and> FileExists malformedWorld ''/work/atmos.yaml''
   \<and> processConfigFile malformedWorld ''/work/atmos.yaml'' defaultConfig
       = Inl (Error ''yaml: line 1: did not find expected key'')
   \<and> InitConfig malformedWorld zeroConfig
       = (Some (Error ''yaml: line 1: did not find expected key''), zeroConfig)
   \<and> processConfigFile malformedWorld (configFile2 malformedWorld ''/home/user'') defaultConfig
       = Inr defaultConfig"
  using candidate_file_fatal [of malformedWorld "configFile2 malformedWorld ''/home/user''"
      defaultConfig "Error ''yaml: line 1: did not find expected key''" defaultConfig
      zeroConfig viper_New "''/home/user''" defaultConfig viper_New "''/work''" defaultConfig]
    malformedWorld_sources malformedWorld_file
  by simp

text \<open>
  C5. Validation runs on the record as the environment overrides leave it, before any
  path is made absolute. \<open>InitConfig\<close> returns the validation error, with the record
  as populated and no path normalized, exactly when \<open>StackDirs\<close> is an empty
  sequence, \<open>TerraformDir\<close> is empty or \<open>StackNamePattern\<close> is empty; the message
  names the missing field, its key in the files and its environment variable, and
  the first empty field in this order is the one reported. Otherwise \<open>checkConfig\<close>
  returns no error and \<open>InitConfig\<close> goes on with path normalization.
\<close>

theorem validation_after_overrides:
  assumes "populate w Config = Inr c"
  shows "InitConfig w Config =
           (if StackDirs c = [] then
              (Some (Error ''At least one path to stack config must be provided in 'StackDirs' or 'ATMOS_STACK_DIRS' ENV variable''), c)
            else if TerraformDir c = [] then
              (Some (Error ''Terraform dir must be provided in 'TerraformDir' or 'ATMOS_TERRAFORM_DIR' ENV variable''), c)
            else if StackNamePattern c = [] then
              (Some (Error ''Stack name pattern must be provided in 'StackNamePattern' or 'ATMOS_STACK_NAME_PATTERN' ENV variable''), c)
            else normalizeAndDiscover w c)
         \<and> (checkConfig c = None \<longleftrightarrow>
              StackDirs c \<noteq> [] \<and> TerraformDir c \<noteq> [] \<and> StackNamePattern c \<noteq> [])"
  using assms by (simp add: InitConfig_stages checkConfig_def)

theorem validation_after_overrides_witness:
  "populate emptyTerraformWorld zeroConfig =
     Inr \<lparr> StackNamePattern = ''environment-stage'', StackDirs = [''./stacks/*''],
           StackDirsAbsolutePaths = [], TerraformDir = [], TerraformDirAbsolutePath = [],
           StackConfigFiles = [] \<rparr>
   \<and> InitConfig emptyTerraformWorld zeroConfig =
       (Some (Error ''Terraform dir must be provided in 'TerraformDir' or 'ATMOS_TERRAFORM_DIR' ENV variable''),
        \<lparr> StackNamePattern = ''environment-stage'', StackDirs = [''./stacks/*''],
          StackDirsAbsolutePaths = [], TerraformDir = [], TerraformDirAbsolutePath = [],
          StackConfigFiles = [] \<rparr>)"
  using validation_after_overrides [OF emptyTerraformWorld_populate] emptyTerraformWorld_populate
  by simp

text \<open>
  C6 (amended). Discovery treats every pattern the same way: a pattern for which
  \<open>filepath.Ext\<close> is empty is handed to the glob library with \<open>.yaml\<close> appended, a
  pattern with an extension is handed over as it is, and the matches are put in front
  of the matches of the remaining patterns. In particular, with the stack directories
  given as \<open>./fixtures/stacks\<close> the pattern matched is \<open>/work/fixtures/stacks.yaml\<close>:
  when \<open>/work/fixtures/stacks/x.yaml\<close> is the only file, discovery finds nothing. The
  pattern \<open>/work/fixtures/stacks/*\<close> finds exactly that file.
\<close>

theorem default_extension_qualification:
  "findAllStackConfigsInPaths w [] = Inr []
   \<and> findAllStackConfigsInPaths w (p # pathGlobs) =
       (case doublestar_Glob w
               (if filepath_Ext w p = [] then p @ ''.yaml'' else p) of
          Inl err \<Rightarrow> Inl err
        | Inr ms \<Rightarrow>
            (case findAllStackConfigsInPaths w pathGlobs of
               Inl err \<Rightarrow> Inl err
             | Inr rest \<Rightarrow> Inr (ms @ rest)))
   \<and> StackDirs (snd (InitConfig fixtureWorld zeroConfig)) = [''./fixtures/stacks'']
   \<and> StackDirsAbsolutePaths (snd (InitConfig fixtureWorld zeroConfig)) = [''/work/fixtures/stacks'']
   \<and> filepath_Ext fixtureWorld ''/work/fixtures/stacks'' = []
   \<and> doublestar_Glob fixtureWorld ''/work/fixtures/stacks.yaml'' = Inr []
   \<and> findAllStackConfigsInPaths fixtureWorld [''/work/fixtures/stacks''] = Inr []
   \<and> findAllStackConfigsInPaths fixtureWorld [''/work/fixtures/stacks/*'']
       = Inr [''/work/fixtures/stacks/x.yaml'']"
proof -
  have general: "findAllStackConfigsInPaths w (p # pathGlobs) =
       (case doublestar_Glob w
               (if filepath_Ext w p = [] then p @ ''.yaml'' else p) of
          Inl err \<Rightarrow> Inl err
        | Inr ms \<Rightarrow>
            (case findAllStackConfigsInPaths w pathGlobs of
               Inl err \<Rightarrow> Inl err
             | Inr rest \<Rightarrow> Inr (ms @ rest)))"
    using findAllStackConfigsInPaths_Cons [of w p pathGlobs]
    by (simp add: pathWithExt_def DefaultStackConfigFileExtension_def)
  have dirs: "StackDirs (snd (InitConfig fixtureWorld zeroConfig)) = [''./fixtures/stacks'']"
    by code_simp
  have abs: "StackDirsAbsolutePaths (snd (InitConfig fixtureWorld zeroConfig)) = [''/work/fixtures/stacks'']"
    by code_simp
  have ext: "filepath_Ext fixtureWorld ''/work/fixtures/stacks'' = []"
    by code_simp
  have glob: "doublestar_Glob fixtureWorld ''/work/fixtures/stacks.yaml'' = Inr []"
    by code_simp
  have none: "findAllStackConfigsInPaths fixtureWorld [''/work/fixtures/stacks''] = Inr []"
    by code_simp
  have one: "findAllStackConfigsInPaths fixtureWorld [''/work/fixtures/stacks/*'']
       = Inr [''/work/fixtures/stacks/x.yaml'']"
    by code_simp
  show ?thesis
    using general dirs abs ext glob none one
    by (simp add: findAllStackConfigsInPaths_def)
qed

text \<open>
  The specification expects one match for the stack directories \<open>./fixtures/stacks\<close>
  when \<open>x.yaml\<close> is the only file in that directory. Discovery finds no file there, and
  \<open>InitConfig\<close> fails with the error that lists the path globs.
\<close>

theorem fixture_discovery_counterexample:
  "StackDirs (snd (InitConfig fixtureWorld zeroConfig)) = [''./fixtures/stacks'']
   \<and> findAllStackConfigsInPaths fixtureWorld
        (StackDirsAbsolutePaths (snd (InitConfig fixtureWorld zeroConfig))) = Inr []
   \<and> StackConfigFiles (snd (InitConfig fixtureWorld zeroConfig)) = []
   \<and> fst (InitConfig fixtureWorld zeroConfig) =
       Some (Error (''No config files found in any of the provided path globs:'' @ [CHR 0x0A]
                    @ json_MarshalIndent fixtureWorld [''/work/fixtures/stacks''] @ [CHR 0x0A]))"
  by code_simp

text \<open>
  C7. Once the record is populated and valid and the paths are absolute, the outcome of
  \<open>InitConfig\<close> is decided by the list that discovery returns. When the list is empty
  \<open>InitConfig\<close> fails, the message carries the serialized list of the absolute path
  globs, and \<open>StackConfigFiles\<close> is not assigned: it is what the populated record
  \<open>c\<close> holds. Otherwise \<open>InitConfig\<close> succeeds and \<open>StackConfigFiles\<close> is that
  list, the concatenation of the matches of all patterns.
\<close>

theorem no_stack_files_error:
  assumes "populate w Config = Inr c" and "checkConfig c = None"
    and "ConvertPathsToAbsolutePaths w (StackDirs c) = Inr absPaths"
    and "filepath_Abs w (TerraformDir c) = Inr tf"
    and "findAllStackConfigsInPaths w absPaths = Inr files"
  shows "InitConfig w Config =
           (if files = [] then
              (Some (Error (''No config files found in any of the provided path globs:''
                      @ [CHR 0x0A] @ json_MarshalIndent w absPaths @ [CHR 0x0A])),
               c\<lparr>StackDirsAbsolutePaths := absPaths, TerraformDirAbsolutePath := tf\<rparr>)
            else
              (None,
               c\<lparr>StackDirsAbsolutePaths := absPaths, TerraformDirAbsolutePath := tf,
                 StackConfigFiles := files\<rparr>))
       \<and> StackConfigFiles (snd (InitConfig w Config)) =
           (if files = [] then StackConfigFiles c else files)
       \<and> files = concat (map (matchesOf w) absPaths)"
proof -
  have init: "InitConfig w Config =
           (if files = [] then
              (Some (Error (''No config files found in any of the provided path globs:''
                      @ [CHR 0x0A] @ json_MarshalIndent w absPaths @ [CHR 0x0A])),
               c\<lparr>StackDirsAbsolutePaths := absPaths, TerraformDirAbsolutePath := tf\<rparr>)
            else
              (None,
               c\<lparr>StackDirsAbsolutePaths := absPaths, TerraformDirAbsolutePath := tf,
                 StackConfigFiles := files\<rparr>))"
    using assms by (simp add: InitConfig_stages normalizeAndDiscover_def Let_def)
  have files: "files = concat (map (matchesOf w) absPaths)"
    using assms(5) findAll_loop_Inr [of w "[]" absPaths files]
    by (simp add: findAllStackConfigsInPaths_def)
  show ?thesis
    using init files by simp
qed

theorem no_stack_files_error_witness:
  "InitConfig stacksWorld zeroConfig =
     (None,
      \<lparr> StackNamePattern = ''environment-stage'', StackDirs = [''./stacks/*''],
        StackDirsAbsolutePaths = [''/work/stacks/*''], TerraformDir = ''./components/terraform'',
        TerraformDirAbsolutePath = ''/work/components/terraform'',
        StackConfigFiles = [''/work/stacks/dev.yaml'', ''/work/stacks/prod.yaml''] \<rparr>)
   \<and> InitConfig commaWorld zeroConfig =
     (Some (Error (''No config files found in any of the provided path globs:'' @ [CHR 0x0A]
              @ json_MarshalIndent commaWorld [''/work'', ''/work''] @ [CHR 0x0A])),
      \<lparr> StackNamePattern = ''environment-stage'', StackDirs = [[], []],
        StackDirsAbsolutePaths = [''/work'', ''/work''], TerraformDir = ''./components/terraform'',
        TerraformDirAbsolutePath = ''/work/components/terraform'', StackConfigFiles = [] \<rparr>)"
  using no_stack_files_error [OF stacksWorld_populate stacksWorld_check stacksWorld_paths
      stacksWorld_terraform stacksWorld_discovery]
    no_stack_files_error [OF commaWorld_populate commaWorld_check commaWorld_paths
      commaWorld_terraform commaWorld_discovery]
  by simp

text \<open>
  C8. When discovery returns a list, every glob has succeeded and the list is the
  concatenation of the patterns' match lists, in the order of the patterns, each in its
  own order. Nothing is removed: a file occurs as often as the match lists contain it,
  and when no single match list repeats a file, as often as there are patterns that
  match it.
\<close>

theorem discovery_concatenates:
  assumes "findAllStackConfigsInPaths w pathGlobs = Inr files"
  shows "files = concat (map (matchesOf w) pathGlobs)
       \<and> (\<forall>p \<in> set pathGlobs. doublestar_Glob w (pathWithExt w p) = Inr (matchesOf w p))
       \<and> count_list files f = sum_list (map (\<lambda>p. count_list (matchesOf w p) f) pathGlobs)
       \<and> ((\<forall>p \<in> set pathGlobs. distinct (matchesOf w p)) \<longrightarrow>
            count_list files f = length (filter (\<lambda>p. f \<in> set (matchesOf w p)) pathGlobs))"
proof -
  have files: "files = concat (map (matchesOf w) pathGlobs)"
    using assms findAll_loop_Inr [of w "[]" pathGlobs files]
    by (simp add: findAllStackConfigsInPaths_def)
  have ok: "doublestar_Glob w (pathWithExt w p) = Inr (matchesOf w p)" if "p \<in> set pathGlobs" for p
  proof (cases "doublestar_Glob w (pathWithExt w p)")
    case (Inl err)
    then show ?thesis
      using findAll_loop_fails [OF Inl that, of "[]"] assms
      by (simp add: findAllStackConfigsInPaths_def)
  next
    case (Inr ms)
    then show ?thesis by (simp add: matchesOf_def)
  qed
  have count: "count_list files f = sum_list (map (\<lambda>p. count_list (matchesOf w p) f) pathGlobs)"
    by (simp add: files count_list_concat comp_def)
  have "count_list files f = length (filter (\<lambda>p. f \<in> set (matchesOf w p)) pathGlobs)"
    if "\<forall>p \<in> set pathGlobs. distinct (matchesOf w p)"
    using count_distinct_lists [OF that] by (simp add: count)
  then show ?thesis
    using files ok count by blast
qed

theorem discovery_concatenates_witness:
  "findAllStackConfigsInPaths stacksWorld
       [''/work/stacks/*'', ''/work/stacks/dev.yaml'', ''/work/stacks/d*'']
     = Inr [''/work/stacks/dev.yaml'', ''/work/stacks/prod.yaml'', ''/work/stacks/dev.yaml'',
            ''/work/stacks/dev.yaml'']
   \<and> concat (map (matchesOf stacksWorld)
         [''/work/stacks/*'', ''/work/stacks/dev.yaml'', ''/work/stacks/d*''])
     = [''/work/stacks/dev.yaml'', ''/work/stacks/prod.yaml'', ''/work/stacks/dev.yaml'',
        ''/work/stacks/dev.yaml'']
   \<and> count_list [''/work/stacks/dev.yaml'', ''/work/stacks/prod.yaml'', ''/work/stacks/dev.yaml'',
         ''/work/stacks/dev.yaml''] ''/work/stacks/dev.yaml''
     = length (filter (\<lambda>p. ''/work/stacks/dev.yaml'' \<in> set (matchesOf stacksWorld p))
         [''/work/stacks/*'', ''/work/stacks/dev.yaml'', ''/work/stacks/d*''])
   \<and> length (filter (\<lambda>p. ''/work/stacks/dev.yaml'' \<in> set (matchesOf stacksWorld p))
         [''/work/stacks/*'', ''/work/stacks/dev.yaml'', ''/work/stacks/d*'']) = 3"
  using discovery_concatenates [OF stacksWorld_run, of "''/work/stacks/dev.yaml''"]
    stacksWorld_run stacksWorld_distinct stacksWorld_matching
  by simp

text \<open>
  C9. An environment variable set to the empty string is treated exactly like an unset
  one: \<open>InitConfig\<close> and \<open>processEnvVars\<close> give the same result for both, whatever
  the variable. A field keeps the value it has from the files and the defaults when its
  variable is unset or empty, and is overwritten only by a non-empty value (split on
  commas for the stack directories).
\<close>

theorem empty_env_var_is_unset:
  "InitConfig (w\<lparr>environ := (environ w)(var \<mapsto> [])\<rparr>) Config =
     InitConfig (w\<lparr>environ := (environ w)(var := None)\<rparr>) Config
   \<and> processEnvVars (w\<lparr>environ := (environ w)(var \<mapsto> [])\<rparr>) c =
     processEnvVars (w\<lparr>environ := (environ w)(var := None)\<rparr>) c
   \<and> StackDirs (processEnvVars w c) =
       (case environ w ''ATMOS_STACK_DIRS'' of
          None \<Rightarrow> StackDirs c
        | Some val \<Rightarrow> if val = [] then StackDirs c else strings_Split val CHR '','')
   \<and> TerraformDir (processEnvVars w c) =
       (case environ w ''ATMOS_TERRAFORM_DIR'' of
          None \<Rightarrow> TerraformDir c
        | Some val \<Rightarrow> if val = [] then TerraformDir c else val)
   \<and> StackNamePattern (processEnvVars w c) =
       (case environ w ''ATMOS_STACK_NAME_PATTERN'' of
          None \<Rightarrow> StackNamePattern c
        | Some val \<Rightarrow> if val = [] then StackNamePattern c else val)"
proof -
  have "InitConfig (w\<lparr>environ := (environ w)(var \<mapsto> [])\<rparr>) Config =
        InitConfig (w\<lparr>environ := (environ w)(var := None)\<rparr>) Config"
    by (rule InitConfig_environ) (rule os_Getenv_empty_unset)
  moreover have "processEnvVars (w\<lparr>environ := (environ w)(var \<mapsto> [])\<rparr>) c =
        processEnvVars (w\<lparr>environ := (environ w)(var := None)\<rparr>) c"
    by (simp add: processEnvVars_def os_Getenv_empty_unset)
  ultimately show ?thesis
    by (simp add: processEnvVars_StackDirs processEnvVars_TerraformDir
        processEnvVars_StackNamePattern os_Getenv_def split: option.split)
qed

text \<open>
  C10 (amended). When \<open>ATMOS_STACK_DIRS\<close> consists of commas only (\<open>n + 1\<close> of
  them), \<open>StackDirs\<close> becomes \<open>n + 2\<close> empty strings. \<open>checkConfig\<close> does not
  object to it: it returns an error only for an empty \<open>TerraformDir\<close> or
  \<open>StackNamePattern\<close>, and when it returns none \<open>InitConfig\<close> goes on with path
  normalization, which is given the empty strings. Glob expansion is then given their
  absolute forms: \<open>n + 2\<close> times what \<open>filepath.Abs\<close> returns for the empty string.
\<close>

theorem comma_only_stack_dirs:
  assumes "environ w ''ATMOS_STACK_DIRS'' = Some (replicate (Suc n) CHR '','')"
    and "populate w Config = Inr c"
  shows "StackDirs c = replicate (Suc (Suc n)) []
       \<and> checkConfig c =
           (if TerraformDir c = [] then
              Some (Error ''Terraform dir must be provided in 'TerraformDir' or 'ATMOS_TERRAFORM_DIR' ENV variable'')
            else if StackNamePattern c = [] then
              Some (Error ''Stack name pattern must be provided in 'StackNamePattern' or 'ATMOS_STACK_NAME_PATTERN' ENV variable'')
            else None)
       \<and> (if checkConfig c = None then InitConfig w Config = normalizeAndDiscover w c
            else InitConfig w Config = (checkConfig c, c))
       \<and> ConvertPathsToAbsolutePaths w (StackDirs c) =
           (case filepath_Abs w [] of
              Inl err \<Rightarrow> Inl err
            | Inr a \<Rightarrow> Inr (replicate (Suc (Suc n)) a))
       \<and> normalizeAndDiscover w c =
           (case filepath_Abs w [] of
              Inl err \<Rightarrow> (Some err, c)
            | Inr a \<Rightarrow>
           (case filepath_Abs w (TerraformDir c) of
              Inl err \<Rightarrow> (Some err, c\<lparr>StackDirsAbsolutePaths := replicate (Suc (Suc n)) a\<rparr>)
            | Inr tf \<Rightarrow>
           (case findAllStackConfigsInPaths w (replicate (Suc (Suc n)) a) of
              Inl err \<Rightarrow>
                (Some err,
                 c\<lparr>StackDirsAbsolutePaths := replicate (Suc (Suc n)) a,
                   TerraformDirAbsolutePath := tf\<rparr>)
            | Inr files \<Rightarrow>
                (if files = [] then
                   (Some (Error (''No config files found in any of the provided path globs:''
                           @ [CHR 0x0A] @ json_MarshalIndent w (replicate (Suc (Suc n)) a)
                           @ [CHR 0x0A])),
                    c\<lparr>StackDirsAbsolutePaths := replicate (Suc (Suc n)) a,
                      TerraformDirAbsolutePath := tf\<rparr>)
                 else
                   (None,
                    c\<lparr>StackDirsAbsolutePaths := replicate (Suc (Suc n)) a,
                      TerraformDirAbsolutePath := tf, StackConfigFiles := files\<rparr>)))))"
proof -
  have dirs: "StackDirs c = replicate (Suc (Suc n)) []"
    using populate_StackDirs_env [OF assms(2) assms(1)] strings_Split_commas [of "Suc n"]
    by simp
  have check: "checkConfig c =
           (if TerraformDir c = [] then
              Some (Error ''Terraform dir must be provided in 'TerraformDir' or 'ATMOS_TERRAFORM_DIR' ENV variable'')
            else if StackNamePattern c = [] then
              Some (Error ''Stack name pattern must be provided in 'StackNamePattern' or 'ATMOS_STACK_NAME_PATTERN' ENV variable'')
            else None)"
    by (simp add: checkConfig_def dirs)
  have init: "if checkConfig c = None then InitConfig w Config = normalizeAndDiscover w c
            else InitConfig w Config = (checkConfig c, c)"
    using assms(2) by (auto simp: InitConfig_stages)
  have conv: "ConvertPathsToAbsolutePaths w (StackDirs c) =
           (case filepath_Abs w [] of
              Inl err \<Rightarrow> Inl err
            | Inr a \<Rightarrow> Inr (replicate (Suc (Suc n)) a))"
    unfolding dirs by (simp add: ConvertPaths_replicate del: replicate_Suc)
  have discover: "normalizeAndDiscover w c =
           (case filepath_Abs w [] of
              Inl err \<Rightarrow> (Some err, c)
            | Inr a \<Rightarrow>
           (case filepath_Abs w (TerraformDir c) of
              Inl err \<Rightarrow> (Some err, c\<lparr>StackDirsAbsolutePaths := replicate (Suc (Suc n)) a\<rparr>)
            | Inr tf \<Rightarrow>
           (case findAllStackConfigsInPaths w (replicate (Suc (Suc n)) a) of
              Inl err \<Rightarrow>
                (Some err,
                 c\<lparr>StackDirsAbsolutePaths := replicate (Suc (Suc n)) a,
                   TerraformDirAbsolutePath := tf\<rparr>)
            | Inr files \<Rightarrow>
                (if files = [] then
                   (Some (Error (''No config files found in any of the provided path globs:''
                           @ [CHR 0x0A] @ json_MarshalIndent w (replicate (Suc (Suc n)) a)
                           @ [CHR 0x0A])),
                    c\<lparr>StackDirsAbsolutePaths := replicate (Suc (Suc n)) a,
                      TerraformDirAbsolutePath := tf\<rparr>)
                 else
                   (None,
                    c\<lparr>StackDirsAbsolutePaths := replicate (Suc (Suc n)) a,
                      TerraformDirAbsolutePath := tf, StackConfigFiles := files\<rparr>)))))"
    by (simp add: normalizeAndDiscover_def conv Let_def del: replicate_Suc split: sum.split)
  show ?thesis
    using dirs check init conv discover by blast
qed

theorem comma_only_stack_dirs_witness:
  "environ commaWorld ''ATMOS_STACK_DIRS'' = Some '',''
   \<and> StackDirs (snd (InitConfig commaWorld zeroConfig)) = [[], []]
   \<and> StackDirsAbsolutePaths (snd (InitConfig commaWorld zeroConfig)) = [''/work'', ''/work'']
   \<and> fst (InitConfig commaWorld zeroConfig) \<noteq>
       Some (Error ''At least one path to stack config must be provided in 'StackDirs' or 'ATMOS_STACK_DIRS' ENV variable'')"
proof -
  have run: "InitConfig commaWorld zeroConfig =
      (Some (Error (''No config files found in any of the provided path globs:'' @ [CHR 0x0A]
           @ json_MarshalIndent commaWorld [''/work'', ''/work''] @ [CHR 0x0A])),
       \<lparr> StackNamePattern = ''environment-stage'', StackDirs = [[], []],
         StackDirsAbsolutePaths = [''/work'', ''/work''], TerraformDir = ''./components/terraform'',
         TerraformDirAbsolutePath = ''/work/components/terraform'', StackConfigFiles = [] \<rparr>)"
    by code_simp
  show ?thesis
    using comma_only_stack_dirs [OF commaWorld_env commaWorld_populate] commaWorld_env run
    by simp
qed

text \<open>
  Glob expansion does not run on empty-string patterns. In the example world the stack
  directories are two empty strings, but the patterns given to the discovery are their
  absolute forms, the working directory twice, and the glob library is asked for
  \<open>/work.yaml\<close>.
\<close>

theorem comma_only_glob_counterexample:
  "environ commaWorld ''ATMOS_STACK_DIRS'' = Some '',''
   \<and> StackDirs (snd (InitConfig commaWorld zeroConfig)) = [[], []]
   \<and> StackDirsAbsolutePaths (snd (InitConfig commaWorld zeroConfig)) = [''/work'', ''/work'']
   \<and> map (pathWithExt commaWorld) (StackDirsAbsolutePaths (snd (InitConfig commaWorld zeroConfig)))
       = [''/work.yaml'', ''/work.yaml'']"
  by code_simp

end
